theory Spec2Isabelle
  imports Complex_Main
begin

section \<open>Strings\<close>

text \<open>
  A Python \<open>str\<close> is modelled as a \<open>string\<close>, one \<open>char\<close> per code point, for the code
  points 0 to 255. The character classes and case mappings below are Python's on that
  range (\<open>str.isspace\<close>, the regular expression classes \<open>\d\<close> and \<open>\s\<close>, \<open>str.lower\<close>).
\<close>

definition py_isdigit :: "char \<Rightarrow> bool" where
  "py_isdigit c = ((48::nat) \<le> of_char c \<and> of_char c \<le> (57::nat))"

definition py_isspace :: "char \<Rightarrow> bool" where
  "py_isspace c =
     (let n = (of_char c :: nat)
      in (9 \<le> n \<and> n \<le> 13) \<or> (28 \<le> n \<and> n \<le> 32) \<or> n = 133 \<or> n = 160)"

definition lower_char :: "char \<Rightarrow> char" where
  "lower_char c =
     (let n = (of_char c :: nat)
      in if (65 \<le> n \<and> n \<le> 90) \<or> (192 \<le> n \<and> n \<le> 222 \<and> n \<noteq> 215)
         then char_of (n + 32) else c)"

definition py_lower :: "string \<Rightarrow> string" where
  "py_lower s = map lower_char s"

text \<open>\<open>s.strip()\<close>: white space removed at both ends.\<close>

definition py_strip :: "string \<Rightarrow> string" where
  "py_strip s = rev (dropWhile py_isspace (rev (dropWhile py_isspace s)))"

text \<open>\<open>sub in s\<close> on strings: \<open>sub\<close> occurs in \<open>s\<close> as a contiguous piece.\<close>

fun starts_with :: "string \<Rightarrow> string \<Rightarrow> bool" where
  "starts_with [] s = True"
| "starts_with (a # sub) [] = False"
| "starts_with (a # sub) (c # s) = (a = c \<and> starts_with sub s)"

fun py_in :: "string \<Rightarrow> string \<Rightarrow> bool" where
  "py_in sub [] = (sub = [])"
| "py_in sub (c # s) = (starts_with sub (c # s) \<or> py_in sub s)"

section \<open>The weight normaliser\<close>

subsection \<open>Decimal numerals and binary64 numbers\<close>

text \<open>\<open>int(ds)\<close> for a string of decimal digits, and \<open>str(n)\<close> for an integer.\<close>

definition digit_value :: "char \<Rightarrow> nat" where
  "digit_value c = of_char c - (48::nat)"

definition nat_of_digits :: "string \<Rightarrow> nat" where
  "nat_of_digits ds = foldl (\<lambda>n c. 10 * n + digit_value c) 0 ds"

definition digit_char :: "nat \<Rightarrow> char" where
  "digit_char d = ''0123456789'' ! d"

fun str_nat :: "nat \<Rightarrow> string" where
  "str_nat n = (if n < 10 then [digit_char n] else str_nat (n div 10) @ [digit_char (n mod 10)])"

declare str_nat.simps [simp del]

definition py_str :: "int \<Rightarrow> string" where
  "py_str i = (if i < 0 then CHR ''-'' # str_nat (nat (- i)) else str_nat (nat i))"

text \<open>
  Python's \<open>float\<close> is an IEEE 754 binary64 number. The numbers that arise here are not
  negative: \<open>Finite m q\<close> is \<open>m * 2 ^ q\<close>, \<open>Infinity\<close> is \<open>inf\<close>. \<open>float(s)\<close> on a decimal
  numeral rounds its value \<open>N / D\<close> to the nearest binary64 number, ties to the even
  significand: the significand has 53 bits and the least exponent of its unit is
  \<open>-1074\<close>; a result of \<open>2 ^ 1024\<close> or more is \<open>inf\<close>.
\<close>

datatype py_float = Finite nat int | Infinity

fun bit_length :: "nat \<Rightarrow> nat" where
  "bit_length n = (if n = 0 then 0 else Suc (bit_length (n div 2)))"

declare bit_length.simps [simp del]

text \<open>\<open>pow2_le e N D\<close>: \<open>2 ^ e \<le> N / D\<close>, for an integer \<open>e\<close> of either sign.\<close>

definition pow2_le :: "int \<Rightarrow> nat \<Rightarrow> nat \<Rightarrow> bool" where
  "pow2_le e N D = (if 0 \<le> e then D * 2 ^ nat e \<le> N else D \<le> N * 2 ^ nat (- e))"

text \<open>The exponent \<open>e\<close> with \<open>2 ^ e \<le> N / D < 2 ^ (e + 1)\<close>, for \<open>N, D > 0\<close>.\<close>

definition float_exponent :: "nat \<Rightarrow> nat \<Rightarrow> int" where
  "float_exponent N D =
     (let e0 = int (bit_length N) - int (bit_length D)
      in if pow2_le e0 N D then e0 else e0 - 1)"

definition round_half_even :: "nat \<Rightarrow> nat \<Rightarrow> nat" where
  "round_half_even num den =
     (let k = num div den; r = num mod den
      in if 2 * r < den then k
         else if den < 2 * r then k + 1
         else if even k then k else k + 1)"

definition float_of_ratio :: "nat \<Rightarrow> nat \<Rightarrow> py_float" where
  "float_of_ratio N D =
     (if N = 0 then Finite 0 0
      else
        let q = max (float_exponent N D - 52) (- 1074);
            m = (if 0 \<le> q then round_half_even N (D * 2 ^ nat q)
                 else round_half_even (N * 2 ^ nat (- q)) D)
        in if 0 \<le> q \<and> 2 ^ 1024 \<le> m * 2 ^ nat q then Infinity else Finite m q)"

text \<open>
  \<open>float(tok)\<close> for a token of the pattern \<open>\d+(\.\d+)?\<close>, given as its integer digits
  and its fraction digits (empty when the token has no point).
\<close>

definition py_float_of_token :: "string \<Rightarrow> string \<Rightarrow> py_float" where
  "py_float_of_token ip fp = float_of_ratio (nat_of_digits (ip @ fp)) (10 ^ length fp)"

datatype py_error = OverflowError

text \<open>\<open>math.ceil(x)\<close>: an \<open>int\<close>; \<open>OverflowError\<close> on \<open>inf\<close>.\<close>

definition math_ceil :: "py_float \<Rightarrow> py_error + int" where
  "math_ceil x =
     (case x of
        Infinity \<Rightarrow> Inl OverflowError
      | Finite m q \<Rightarrow>
          Inr (if 0 \<le> q then int (m * 2 ^ nat q)
               else int ((m + 2 ^ nat (- q) - 1) div 2 ^ nat (- q))))"

subsection \<open>\<open>process_weight_value\<close>\<close>

text \<open>
  \<open>re.search(r'(\d+(\.\d+)?)', s)\<close>: the leftmost match starts at the first digit; it
  takes the longest run of digits and then, if a point and at least one digit follow,
  the point and the longest run of digits after it. The result is the integer digits and the
  fraction digits of group 1, \<open>None\<close> when \<open>s\<close> has no digit.
\<close>

definition number_match :: "string \<Rightarrow> (string \<times> string) option" where
  "number_match s =
     (let from_digit = dropWhile (\<lambda>c. \<not> py_isdigit c) s
      in if from_digit = [] then None
         else
           let ip = takeWhile py_isdigit from_digit;
               after = dropWhile py_isdigit from_digit
           in case after of
                [] \<Rightarrow> Some (ip, [])
              | c # after_point \<Rightarrow>
                  if c = CHR ''.'' then Some (ip, takeWhile py_isdigit after_point)
                  else Some (ip, []))"

text \<open>
  \<open>re.search(r'[^\d.]+$', s)\<close>: the longest run, at the end of \<open>s\<close>, of characters that
  are neither digits nor points; \<open>None\<close> when that run is empty.
\<close>

definition units_match :: "string \<Rightarrow> string option" where
  "units_match s =
     (let run = rev (takeWhile (\<lambda>c. \<not> py_isdigit c \<and> c \<noteq> CHR ''.'') (rev s))
      in if run = [] then None else Some run)"

text \<open>The body of the \<open>try\<close> block; \<open>Inl\<close> is an exception raised in it.\<close>

definition weight_try :: "string \<Rightarrow> py_error + string" where
  "weight_try v =
     (case number_match v of
        None \<Rightarrow> Inr v
      | Some (ip, fp) \<Rightarrow>
          (case math_ceil (py_float_of_token ip fp) of
             Inl e \<Rightarrow> Inl e
           | Inr rounded \<Rightarrow>
               let final = rounded + 5;
                   units = (case units_match v of Some run \<Rightarrow> py_strip run | None \<Rightarrow> [])
               in Inr (py_str final @ (if units \<noteq> [] then '' '' @ units else []))))"

text \<open>The bare \<open>except\<close> returns the value as it came.\<close>

definition process_weight_value :: "string \<Rightarrow> string" where
  "process_weight_value v = (case weight_try v of Inl e \<Rightarrow> v | Inr r \<Rightarrow> r)"

subsection \<open>The normaliser in the specification's words\<close>

text \<open>
  \<open>first_numeric_token s ip fp\<close>: the first numeric token of \<open>s\<close> has the integer digits
  \<open>ip\<close> and the fraction digits \<open>fp\<close> (none when \<open>fp\<close> is empty): no digit stands before
  it, and it cannot be extended by a digit, or by a point and a digit.
\<close>

definition first_numeric_token :: "string \<Rightarrow> string \<Rightarrow> string \<Rightarrow> bool" where
  "first_numeric_token s ip fp =
     (\<exists>pre rest.
        s = pre @ ip @ (if fp = [] then [] else CHR ''.'' # fp) @ rest
        \<and> (\<forall>c \<in> set pre. \<not> py_isdigit c)
        \<and> ip \<noteq> [] \<and> (\<forall>c \<in> set ip. py_isdigit c) \<and> (\<forall>c \<in> set fp. py_isdigit c)
        \<and> (rest = [] \<or> \<not> py_isdigit (hd rest))
        \<and> (fp = [] \<longrightarrow> \<not> (\<exists>d r. rest = CHR ''.'' # d # r \<and> py_isdigit d)))"

text \<open>The value of a token: its digits read as a decimal numeral.\<close>

definition token_value :: "string \<Rightarrow> string \<Rightarrow> real" where
  "token_value ip fp = real (nat_of_digits (ip @ fp)) / 10 ^ length fp"

text \<open>
  \<open>trailing_unit s run\<close>: \<open>run\<close> is the trailing non-numeric piece of \<open>s\<close>, all that
  follows the last digit or point of \<open>s\<close> (empty when \<open>s\<close> ends in one).
\<close>

definition trailing_unit :: "string \<Rightarrow> string \<Rightarrow> bool" where
  "trailing_unit s run =
     (\<exists>body. s = body @ run
        \<and> (\<forall>c \<in> set run. \<not> py_isdigit c \<and> c \<noteq> CHR ''.'')
        \<and> (body = [] \<or> py_isdigit (last body) \<or> last body = CHR ''.''))"

text \<open>The result the specification gives: \<open>str(c)\<close>, then a space and the unit if any.\<close>

definition with_unit :: "int \<Rightarrow> string \<Rightarrow> string" where
  "with_unit c u = py_str c @ (if u = [] then [] else '' '' @ u)"

section \<open>The specification extractor\<close>

text \<open>
  What \<open>extract_table_data\<close> reads of the rendered page, as the lists its queries return:
  the tables matching \<open>table.table.table-condensed.specs-table\<close> and all tables (a table
  is the list of its \<open>tr\<close> rows, a row the texts of its \<open>td\<close> cells); the elements
  matching \<open>.specs-row, [class*='spec']\<close>, each with the texts of its key elements and of
  its value elements; the \<open>dl\<close> lists, each with the texts of its \<open>dt\<close> and \<open>dd\<close>
  elements; the texts of the \<open>p, div, li, span\<close> elements. The page is a snapshot: every
  query returns.
\<close>

record document =
  specs_table_elems :: "string list list list"
  table_elems :: "string list list list"
  spec_row_elems :: "(string list \<times> string list) list"
  dl_elems :: "(string list \<times> string list) list"
  text_elems :: "string list"

definition table_open :: string where
  \<open>table_open = ''<table class="specs-table" cellspacing="0" cellpadding="4" border="1" style="margin-top:10px;border-collapse:collapse;width:auto;" align="left"><tbody>''\<close>

definition table_close :: string where
  "table_close = ''</tbody></table>''"

definition spec_row_html :: "string \<Rightarrow> string \<Rightarrow> string" where
  \<open>spec_row_html key value =
     ''<tr><td style="padding:3px 8px;"><b>'' @ key
       @ ''</b></td><td style="padding:3px 8px;">'' @ value @ ''</td></tr>''\<close>

text \<open>
  \<open>specs_dict\<close> is a dict, kept here as the list of its items in insertion order.
  \<open>add_spec\<close> is \<open>if key and not key.lower() in specs_dict: specs_dict[key.lower()] = value\<close>.
\<close>

definition add_spec :: "(string \<times> string) list \<Rightarrow> string \<Rightarrow> string \<Rightarrow> (string \<times> string) list" where
  "add_spec specs_dict key value =
     (if key \<noteq> [] \<and> map_of specs_dict (py_lower key) = None
      then specs_dict @ [(py_lower key, value)] else specs_dict)"

text \<open>\<open>if "weight" in key.lower(): value = self.process_weight_value(value)\<close>.\<close>

definition weight_checked :: "string \<Rightarrow> string \<Rightarrow> string" where
  "weight_checked key value =
     (if py_in ''weight'' (py_lower key) then process_weight_value value else value)"

text \<open>One row of the table: the dict and the markup after it.\<close>

definition table_row_step ::
  "(string \<times> string) list \<times> string \<Rightarrow> string list \<Rightarrow> (string \<times> string) list \<times> string" where
  "table_row_step acc cells =
     (case cells of
        c0 # c1 # cells_rest \<Rightarrow>
          let key = py_strip c0; value = weight_checked key (py_strip c1)
          in (add_spec (fst acc) key value, snd acc @ spec_row_html key value)
      | _ \<Rightarrow> acc)"

text \<open>
  The three fallbacks keep \<open>other_specs\<close> (a list of pairs) and the dict. Method 1: the
  first key element and the first value element of each spec element.
\<close>

definition keep_pair ::
  "(string \<times> string) list \<times> (string \<times> string) list \<Rightarrow> string \<Rightarrow> string
     \<Rightarrow> (string \<times> string) list \<times> (string \<times> string) list" where
  "keep_pair acc key value = (fst acc @ [(key, value)], add_spec (snd acc) key value)"

definition spec_elem_step ::
  "(string \<times> string) list \<times> (string \<times> string) list \<Rightarrow> string list \<times> string list
     \<Rightarrow> (string \<times> string) list \<times> (string \<times> string) list" where
  "spec_elem_step acc row =
     (case row of
        (k # ks, v # vs) \<Rightarrow>
          let key = py_strip k; value = weight_checked key (py_strip v)
          in if key \<noteq> [] then keep_pair acc key value else acc
      | _ \<Rightarrow> acc)"

text \<open>Method 2: terms and definitions paired by position, up to the shorter list.\<close>

definition dl_pair_step ::
  "(string \<times> string) list \<times> (string \<times> string) list \<Rightarrow> string \<times> string
     \<Rightarrow> (string \<times> string) list \<times> (string \<times> string) list" where
  "dl_pair_step acc td =
     (let key = py_strip (fst td); value = weight_checked key (py_strip (snd td))
      in if key \<noteq> [] then keep_pair acc key value else acc)"

definition dl_step ::
  "(string \<times> string) list \<times> (string \<times> string) list \<Rightarrow> string list \<times> string list
     \<Rightarrow> (string \<times> string) list \<times> (string \<times> string) list" where
  "dl_step acc dl = foldl dl_pair_step acc (zip (fst dl) (snd dl))"

text \<open>
  Method 3. \<open>re.match(r'([^:]+):\s*(.+)', text)\<close>, and the same with \<open>-\<close> for \<open>:\<close>:
  group 1 is all before the first separator and is not empty; after the separator the
  white space is skipped and group 2 is the rest of that line. When only white space
  follows the separator, the match gives white space back: group 2 is then its last
  character that is not a newline, and there is no match if it has none.
\<close>

definition re_match_kv :: "char \<Rightarrow> string \<Rightarrow> (string \<times> string) option" where
  "re_match_kv sep text =
     (let g1 = takeWhile (\<lambda>c. c \<noteq> sep) text;
          from_sep = dropWhile (\<lambda>c. c \<noteq> sep) text
      in if g1 = [] \<or> from_sep = [] then None
         else
           let after = tl from_sep;
               rest = dropWhile py_isspace after
           in if rest \<noteq> [] then Some (g1, takeWhile (\<lambda>c. c \<noteq> CHR 0x0A) rest)
              else (case find (\<lambda>c. c \<noteq> CHR 0x0A) (rev after) of
                      None \<Rightarrow> None
                    | Some c \<Rightarrow> Some (g1, [c])))"

definition common_specs :: "string list" where
  "common_specs =
     [''manufacturer'', ''food type'', ''frypot style'', ''heat'', ''hertz'', ''nema'',
      ''number of'', ''oil capacity'', ''phase'', ''product'', ''type'', ''rating'',
      ''special features'', ''voltage'', ''warranty'', ''weight'', ''dimensions'']"

text \<open>The loop over the two patterns: the first whose key is a common term is kept.\<close>

fun try_patterns :: "char list \<Rightarrow> string \<Rightarrow> (string \<times> string) option" where
  "try_patterns [] text = None"
| "try_patterns (sep # seps) text =
     (case re_match_kv sep text of
        None \<Rightarrow> try_patterns seps text
      | Some (g1, g2) \<Rightarrow>
          let key = py_strip g1; value = weight_checked key (py_strip g2)
          in if list_ex (\<lambda>spec. py_in spec (py_lower key)) common_specs
             then Some (key, value)
             else try_patterns seps text)"

definition text_elem_step ::
  "(string \<times> string) list \<times> (string \<times> string) list \<Rightarrow> string
     \<Rightarrow> (string \<times> string) list \<times> (string \<times> string) list" where
  "text_elem_step acc elem_text =
     (let text = py_strip elem_text
      in if text = [] \<or> 100 < length text then acc
         else (case try_patterns [CHR '':'', CHR ''-''] text of
                 None \<Rightarrow> acc
               | Some (key, value) \<Rightarrow> keep_pair acc key value))"

text \<open>The part under \<open>if not specs_html\<close>: other_specs and the dict, then the markup.\<close>

definition fallback_specs :: "document \<Rightarrow> (string \<times> string) list \<times> (string \<times> string) list" where
  "fallback_specs doc =
     (let m1 = foldl spec_elem_step ([], []) (spec_row_elems doc);
          m2 = (if fst m1 = [] then foldl dl_step m1 (dl_elems doc) else m1)
      in if fst m2 = [] then foldl text_elem_step m2 (text_elems doc) else m2)"

definition other_specs_html :: "(string \<times> string) list \<Rightarrow> string" where
  "other_specs_html other_specs =
     (if other_specs \<noteq> []
      then table_open @ concat (map (\<lambda>kv. spec_row_html (fst kv) (snd kv)) other_specs)
             @ table_close
      else [])"

definition extract_table_data :: "document \<Rightarrow> (string \<times> string) list \<times> string" where
  "extract_table_data doc =
     (let found_tables =
            (if specs_table_elems doc = [] then table_elems doc else specs_table_elems doc);
          from_table =
            (case found_tables of
               [] \<Rightarrow> ([], [])
             | table # tables_rest \<Rightarrow>
                 (case foldl table_row_step ([], table_open) table of
                    (specs_dict, html) \<Rightarrow> (specs_dict, html @ table_close)))
      in if snd from_table = []
         then (case fallback_specs doc of
                 (other_specs, specs_dict) \<Rightarrow> (specs_dict, other_specs_html other_specs))
         else from_table)"


section \<open>The product fetcher\<close>

text \<open>
  What \<open>scrape_katom\<close> returns: title, description, the specifications (a dict, in
  insertion order), the specifications table markup, and the video links (one string,
  each link followed by a newline).
\<close>

record scrape_result =
  title :: string
  description :: string
  specs_data :: "(string \<times> string) list"
  specs_html :: string
  video_links :: string

text \<open>The values that \<open>scrape_katom\<close> starts from, returned when nothing is found.\<close>

definition sentinel_result :: scrape_result where
  "sentinel_result =
     \<lparr>title = ''Title not found'', description = ''Description not found'',
      specs_data = [], specs_html = [], video_links = []\<rparr>"

text \<open>
  The test for a title that stands for "no match":
  \<open>title == "Title not found" or "not found" in title.lower()\<close>.
\<close>

definition title_not_found :: "string \<Rightarrow> bool" where
  "title_not_found t = (t = ''Title not found'' \<or> py_in ''not found'' (py_lower t))"

text \<open>
  What one browser session does for \<open>scrape_katom\<close>, as the outcomes of its calls:
  whether \<open>webdriver.Chrome\<close> returns a driver, whether \<open>driver.get\<close> returns, the page
  title, the wait for the \<open>h1\<close> title element and its text, the paragraphs of the
  \<open>tab-content\<close> element, the page as \<open>extract_table_data\<close> reads it, the \<open>src\<close>
  attributes of the \<open>source\<close> elements selected directly and of those inside each
  \<open>video\<close> element (\<open>None\<close> when the attribute is missing), and the matches of the
  \<open>.mp4\<close> pattern in the page source.
\<close>

datatype title_outcome = Title_timeout | Title_error | Title_text string

datatype tab_outcome = Tab_missing | Tab_error | Tab_paragraphs "string list"

datatype 'a query = Raises | Returns 'a

record browser =
  chrome_starts :: bool
  page_loads :: bool
  page_title :: string
  title_wait :: title_outcome
  tab_content :: tab_outcome
  page :: document
  source_srcs :: "string option list query"
  video_srcs :: "string option list list"
  page_mp4_urls :: "string list"

text \<open>The calls that open and close the session, in order.\<close>

datatype session_event = Session_acquired | Session_quit

text \<open>\<open>session_held\<close>: a driver was created and \<open>driver.quit()\<close> was not called since.\<close>

fun session_held :: "session_event list \<Rightarrow> bool" where
  "session_held [] = False"
| "session_held (e # ev) = (if ev = [] then e = Session_acquired else session_held ev)"

text \<open>
  The description: the paragraphs that are not empty, do not start with \<open>*free\<close> and do
  not mention \<open>video\<close>.
\<close>

definition paragraph_kept :: "string \<Rightarrow> bool" where
  "paragraph_kept p =
     (py_strip p \<noteq> [] \<and> \<not> starts_with ''*free'' (py_lower p) \<and> \<not> py_in ''video'' (py_lower p))"

definition extract_description :: "tab_outcome \<Rightarrow> string" where
  "extract_description tab =
     (case tab of
        Tab_paragraphs paragraphs \<Rightarrow>
          let filtered = map (\<lambda>p. ''<p>'' @ py_strip p @ ''</p>'') (filter paragraph_kept paragraphs)
          in if filtered \<noteq> [] then concat filtered else ''Description not found''
      | _ \<Rightarrow> ''Description not found'')"

text \<open>
  The video links are collected in one string, each followed by a newline.
  \<open>if src and src not in video_links: video_links += f"{src}\n"\<close>: the test
  \<open>src not in video_links\<close> is Python's substring test on that string.
\<close>

definition add_link :: "string \<Rightarrow> string option \<Rightarrow> string" where
  "add_link links src =
     (case src of
        None \<Rightarrow> links
      | Some u \<Rightarrow>
          if u \<noteq> [] \<and> \<not> py_in u links then links @ u @ [CHR 0x0A]
          else links)"

definition add_match :: "string \<Rightarrow> string \<Rightarrow> string" where
  "add_match links m =
     (if \<not> py_in m links then links @ m @ [CHR 0x0A] else links)"

definition extract_video_links :: "browser \<Rightarrow> string" where
  "extract_video_links b =
     (case source_srcs b of
        Raises \<Rightarrow> []
      | Returns sources \<Rightarrow>
          let tier1 = foldl add_link [] sources;
              tier2 = (if tier1 = [] then foldl add_link [] (concat (video_srcs b)) else tier1)
          in if tier2 = [] then foldl add_match [] (page_mp4_urls b) else tier2)"

text \<open>
  \<open>scrape_katom(model_number, prefix)\<close>. The URL is built from the prefix and the model
  number (its alphanumeric characters in upper case, a final \<open>HC\<close> removed); \<open>web\<close> gives
  the browser session for that URL. The result comes with the session's calls: every
  exception of the \<open>try\<close> block is caught there, and \<open>finally\<close> quits the driver if one
  was created. On a page titled 404 or "not found" the driver is quit before the return
  and again by \<open>finally\<close>.
\<close>

definition scrape_katom ::
  "(string \<Rightarrow> string \<Rightarrow> browser) \<Rightarrow> string \<Rightarrow> string \<Rightarrow> scrape_result \<times> session_event list" where
  "scrape_katom web model_number prefix =
     (let b = web model_number prefix
      in if \<not> chrome_starts b then (sentinel_result, [])
         else if \<not> page_loads b then (sentinel_result, [Session_acquired, Session_quit])
         else if py_in ''404'' (page_title b) \<or> py_in ''not found'' (py_lower (page_title b))
         then (sentinel_result, [Session_acquired, Session_quit, Session_quit])
         else
           let found_title = (case title_wait b of Title_text t \<Rightarrow> py_strip t
                              | _ \<Rightarrow> ''Title not found'');
               item_found = (case title_wait b of Title_text t \<Rightarrow> py_strip t \<noteq> []
                             | _ \<Rightarrow> False)
           in if item_found
              then
                (case extract_table_data (page b) of
                   (specs, html) \<Rightarrow>
                     (\<lparr>title = found_title, description = extract_description (tab_content b),
                       specs_data = specs, specs_html = html,
                       video_links = extract_video_links b\<rparr>,
                      [Session_acquired, Session_quit]))
              else (sentinel_result\<lparr>title := found_title\<rparr>, [Session_acquired, Session_quit]))"

text \<open>
  Pages for examples. A product page with a title, a description and two clips, the
  second clip's URL being the first without its query string; and a page whose only
  table is a navigation table with one cell per row.
\<close>

definition empty_document :: document where
  "empty_document =
     \<lparr>specs_table_elems = [], table_elems = [], spec_row_elems = [], dl_elems = [],
      text_elems = []\<rparr>"

definition layout_table_document :: document where
  "layout_table_document = empty_document\<lparr>table_elems := [[[''Home''], [''Contact'']]]\<rparr>"

definition clip_hd :: string where
  "clip_hd = ''https://cdn.example.com/clips/fryer.mp4?quality=hd''"

definition clip_plain :: string where
  "clip_plain = ''https://cdn.example.com/clips/fryer.mp4''"

definition product_browser :: browser where
  "product_browser =
     \<lparr>chrome_starts = True, page_loads = True, page_title = ''Fryer X | KaTom'',
      title_wait = Title_text ''Fryer X'',
      tab_content = Tab_paragraphs [''A gas fryer.'', ''*Free shipping''],
      page = empty_document\<lparr>table_elems := [[[''Weight'', ''22.93 lbs'']]]\<rparr>,
      source_srcs = Returns [Some clip_hd, Some clip_plain],
      video_srcs = [], page_mp4_urls = []\<rparr>"

section \<open>The row's handlers of worker signals\<close>

text \<open>
  The fields of a \<open>SheetRow\<close> that its signal handlers write: the two flags, the two
  buttons, the status label. \<open>message_boxes\<close> records the calls of
  \<open>QMessageBox.warning\<close> (title and text), oldest first.
\<close>

record sheet_row =
  running :: bool
  completed :: bool
  start_btn_enabled :: bool
  stop_btn_enabled :: bool
  status_label :: string
  message_boxes :: "(string \<times> string) list"

definition on_update_status :: "string \<Rightarrow> sheet_row \<Rightarrow> sheet_row" where
  "on_update_status status_text r = r\<lparr>status_label := status_text\<rparr>"

text \<open>
  \<open>on_processing_finished\<close>; the notification of the parent window and its
  \<open>process_next_row\<close> act on the main window, not on the row.
\<close>

definition on_processing_finished :: "sheet_row \<Rightarrow> sheet_row" where
  "on_processing_finished r =
     r\<lparr>running := False, completed := True, start_btn_enabled := True,
       stop_btn_enabled := False, status_label := ''Completed''\<rparr>"

definition on_processing_error :: "string \<Rightarrow> sheet_row \<Rightarrow> sheet_row" where
  "on_processing_error error_message r =
     r\<lparr>running := False, completed := False, start_btn_enabled := True,
       stop_btn_enabled := False,
       status_label := ''Error: '' @ take 40 error_message @ ''...'',
       message_boxes := message_boxes r @ [(''Processing Error'', error_message)]\<rparr>"

text \<open>The row as \<open>start_processing\<close> leaves it when the worker thread starts.\<close>

definition started_row :: sheet_row where
  "started_row =
     \<lparr>running = True, completed = False, start_btn_enabled = False,
      stop_btn_enabled = True, status_label = ''Starting...'', message_boxes = []\<rparr>"

text \<open>The last \<open>n\<close> characters of a message (the whole message when it is shorter).\<close>

definition last_chars :: "nat \<Rightarrow> string \<Rightarrow> string" where
  "last_chars n s = drop (length s - n) s"

section \<open>The row processor\<close>

subsection \<open>Strings and dicts of \<open>process_file\<close>\<close>

text \<open>
  \<open>str.title()\<close>: a cased character is put in upper case after an uncased one (or at
  the start) and in lower case after a cased one. Of the code points up to 255, three
  small letters have their capital beyond 255 (\<open>0xB5\<close>, \<open>0xDF\<close>, \<open>0xFF\<close>); they are left as
  they are.
\<close>

definition is_cased :: "char \<Rightarrow> bool" where
  "is_cased c =
     (let n = (of_char c :: nat)
      in (65 \<le> n \<and> n \<le> 90) \<or> (97 \<le> n \<and> n \<le> 122) \<or> n = 170 \<or> n = 181 \<or> n = 186
         \<or> (192 \<le> n \<and> n \<noteq> 215 \<and> n \<noteq> 247))"

definition upper_char :: "char \<Rightarrow> char" where
  "upper_char c =
     (let n = (of_char c :: nat)
      in if (97 \<le> n \<and> n \<le> 122) \<or> (224 \<le> n \<and> n \<le> 254 \<and> n \<noteq> 247)
         then char_of (n - 32) else c)"

fun title_from :: "bool \<Rightarrow> string \<Rightarrow> string" where
  "title_from previous_is_cased [] = []"
| "title_from previous_is_cased (c # s) =
     (if is_cased c
      then (if previous_is_cased then lower_char c else upper_char c) # title_from True s
      else c # title_from False s)"

definition py_title :: "string \<Rightarrow> string" where
  "py_title s = title_from False s"

text \<open>\<open>s.split(sep)\<close> for a separator of one character.\<close>

fun py_split :: "char \<Rightarrow> string \<Rightarrow> string list" where
  "py_split sep [] = [[]]"
| "py_split sep (c # s) =
     (if c = sep then [] # py_split sep s
      else (case py_split sep s of
              [] \<Rightarrow> [[c]]
            | part # parts \<Rightarrow> (c # part) # parts))"

text \<open>\<open>d[k] = v\<close> on a dict kept as the list of its items in insertion order.\<close>

fun dict_set :: "(string \<times> string) list \<Rightarrow> string \<Rightarrow> string \<Rightarrow> (string \<times> string) list" where
  "dict_set [] k v = [(k, v)]"
| "dict_set (item # items) k v =
     (if fst item = k then (k, v) # items else item # dict_set items k v)"

subsection \<open>The output row\<close>

definition default_spec_fields :: "string list" where
  "default_spec_fields =
     [''manufacturer'', ''food type'', ''frypot style'', ''heat'', ''hertz'', ''nema'',
      ''number of fry pots'', ''oil capacity/fryer (lb)'', ''phase'', ''product'',
      ''product type'', ''rating'', ''special features'', ''type'', ''voltage'',
      ''warranty'', ''weight'']"

definition video_column :: "nat \<Rightarrow> string" where
  "video_column i = ''Video Link '' @ py_str (int i)"

definition output_columns :: "string list \<Rightarrow> string list" where
  "output_columns common_spec_fields =
     [''Mfr Model'', ''Title'', ''Description''] @ map py_title common_spec_fields
       @ map video_column [1..<6]"

definition combined_description :: "scrape_result \<Rightarrow> string" where
  \<open>combined_description r =
     ''<div style="text-align: justify;">'' @ description r @ ''</div>''
       @ (if specs_html r \<noteq> []
          then ''<h3 style="margin-top: 15px;">Specifications</h3>'' @ specs_html r
          else [])\<close>

text \<open>
  The first common field that the spec key equals or is contained in, both in lower
  case: \<open>key.lower() == field.lower() or key.lower() in field.lower()\<close>.
\<close>

definition matching_field :: "string list \<Rightarrow> string \<Rightarrow> string option" where
  "matching_field common_spec_fields key =
     find (\<lambda>field. py_lower key = py_lower field \<or> py_in (py_lower key) (py_lower field))
       common_spec_fields"

text \<open>One item of \<open>specs_dict\<close>: weight values are processed, then the value is placed.\<close>

definition place_spec ::
  "string list \<Rightarrow> (string \<times> string) list \<Rightarrow> string \<times> string \<Rightarrow> (string \<times> string) list" where
  "place_spec common_spec_fields row_data item =
     (let value = weight_checked (fst item) (snd item)
      in case matching_field common_spec_fields (fst item) of
           Some field \<Rightarrow> dict_set row_data (py_title field) value
         | None \<Rightarrow> row_data)"

definition video_list :: "string \<Rightarrow> string list" where
  "video_list links =
     filter (\<lambda>link. link \<noteq> []) (map py_strip (py_split (CHR 0x0A) (py_strip links)))"

definition place_videos :: "(string \<times> string) list \<Rightarrow> string list \<Rightarrow> (string \<times> string) list" where
  "place_videos row_data links =
     (let filled = foldl (\<lambda>r il. dict_set r (video_column (fst il)) (snd il)) row_data
                     (zip [1..<6] (take 5 links))
      in foldl (\<lambda>r i. dict_set r (video_column i) []) filled [length links + 1..<6])"

definition build_row :: "string list \<Rightarrow> string \<Rightarrow> scrape_result \<Rightarrow> (string \<times> string) list" where
  "build_row common_spec_fields model r =
     (let base = [(''Mfr Model'', model), (''Title'', title r),
                  (''Description'', combined_description r)];
          with_fields = foldl (\<lambda>row field. dict_set row (py_title field) []) base
                          common_spec_fields;
          with_specs = foldl (place_spec common_spec_fields) with_fields (specs_data r)
      in place_videos with_specs (video_list (video_links r)))"

subsection \<open>\<open>process_file\<close>\<close>

text \<open>
  The worker's signals, and what a run does that is seen outside the thread, in order:
  the signals it emits, the calls of \<open>save_results\<close> with the output frame at that moment
  (its columns and its rows, each row a dict), and the \<open>after_process_file\<close> hook.
\<close>

datatype signal = Update_progress nat nat | Update_status string | Finished | Error string

type_synonym output_frame = "string list \<times> (string \<times> string) list list"

datatype effect = Emit signal | Save_results output_frame | After_process_file output_frame

text \<open>
  The input frame: its column labels and its records, each giving for a column the
  \<open>str()\<close> of the cell; a column a record does not give is a missing value, whose \<open>str()\<close>
  is \<open>nan\<close>.
\<close>

record data_frame =
  df_columns :: "string list"
  df_records :: "(string \<times> string) list list"

definition cell_str :: "(string \<times> string) list \<Rightarrow> string \<Rightarrow> string" where
  "cell_str record col = (case map_of record col of Some v \<Rightarrow> v | None \<Rightarrow> ''nan'')"

text \<open>
  What a run reads of its surroundings: the selected file (\<open>None\<close> when the dropdown is
  empty), the prefix field, the values the \<open>before_process_file\<close> hook returned (\<open>None\<close>
  when the parent has no plugin manager), what \<open>load_file_data\<close> does (\<open>Inl\<close> the message
  of the exception it raises), the configuration (\<open>None\<close> when the parent has no
  configuration manager), what \<open>os.makedirs\<close> does for the output directory (\<open>Some\<close> the
  message of the exception it raises), the row's \<open>scrape_katom\<close> as bound at that time (\<open>Inl\<close> when it
  raises), and the flag \<open>self.running\<close> as read at the head of the \<open>i\<close>-th record and after
  the loop (another thread clears it to cancel).
\<close>

datatype hook_value = Hook_false | Hook_other

record config =
  config_spec_fields :: "string list"
  config_output_prefix :: string

record run_env =
  selected_file :: "string option"
  prefix_input :: string
  plugin_manager :: "hook_value list option"
  load_file_data :: "string + data_frame"
  config_manager :: "config option"
  makedirs :: "string option"
  scrape :: "string \<Rightarrow> string \<Rightarrow> string + scrape_result"
  running_at :: "nat \<Rightarrow> bool"
  running_at_end :: bool

text \<open>The body of the loop after the identifier test, up to the progress signal.\<close>

definition process_record ::
  "run_env \<Rightarrow> string list \<Rightarrow> string \<Rightarrow> string \<Rightarrow> (string \<times> string) list list
     \<Rightarrow> effect list \<times> (string \<times> string) list list" where
  "process_record env spec_fields prefix model out =
     (case scrape env model prefix of
        Inl exn \<Rightarrow> ([Emit (Update_status (''Processing model: '' @ model))], out)
      | Inr r \<Rightarrow>
          if title r \<noteq> ''Title not found'' \<and> \<not> py_in ''not found'' (py_lower (title r))
          then ([Emit (Update_status (''Processing model: '' @ model)),
                 Save_results (output_columns spec_fields, out @ [build_row spec_fields model r])],
                out @ [build_row spec_fields model r])
          else ([Emit (Update_status (''Processing model: '' @ model))], out))"

text \<open>
  The loop \<open>for i, row_data in df.iterrows()\<close> from record \<open>i\<close> on: \<open>break\<close> when the flag
  is cleared, \<open>continue\<close> on an empty identifier, else the record is processed and
  the progress \<open>(i + 1, total_rows)\<close> is emitted.
\<close>

fun process_records ::
  "run_env \<Rightarrow> string list \<Rightarrow> string \<Rightarrow> string \<Rightarrow> nat \<Rightarrow> nat \<Rightarrow> (string \<times> string) list list
     \<Rightarrow> (string \<times> string) list list \<Rightarrow> effect list \<times> (string \<times> string) list list" where
  "process_records env spec_fields prefix model_col total_rows i [] out = ([], out)"
| "process_records env spec_fields prefix model_col total_rows i (row_data # rest) out =
     (if \<not> running_at env i then ([], out)
      else
        let model = cell_str row_data model_col
        in if model = [] then process_records env spec_fields prefix model_col total_rows (Suc i) rest out
           else
             (case process_record env spec_fields prefix model out of
                (effects, out1) \<Rightarrow>
                  (case process_records env spec_fields prefix model_col total_rows (Suc i) rest out1 of
                     (later, out2) \<Rightarrow>
                       (effects @ Emit (Update_progress (Suc i) total_rows) # later, out2))))"

definition find_model_col :: "string list \<Rightarrow> string option" where
  "find_model_col cols = find (\<lambda>col. py_lower (py_strip col) = ''mfr model'') cols"

text \<open>
  \<open>hook_aborts\<close>: some plugin returned \<open>False\<close> from \<open>before_process_file\<close>. The fields
  come from the configuration if there is one; so does the prefix passed to
  \<open>scrape_katom\<close>, since the variable \<open>prefix\<close> is assigned the output prefix there.
\<close>

definition hook_aborts :: "run_env \<Rightarrow> bool" where
  "hook_aborts env =
     (case plugin_manager env of
        Some hook_results \<Rightarrow> list_ex (\<lambda>result. result = Hook_false) hook_results
      | None \<Rightarrow> False)"

definition run_spec_fields :: "run_env \<Rightarrow> string list" where
  "run_spec_fields env =
     (case config_manager env of
        Some c \<Rightarrow> config_spec_fields c
      | None \<Rightarrow> default_spec_fields)"

definition run_prefix :: "run_env \<Rightarrow> string" where
  "run_prefix env =
     (case config_manager env of
        Some c \<Rightarrow> config_output_prefix c
      | None \<Rightarrow> py_strip (prefix_input env))"

definition missing_column_message :: string where
  "missing_column_message =
     ''Missing '' @ [CHR 0x27] @ ''Mfr Model'' @ [CHR 0x27] @ '' column in file''"

text \<open>The end of a run: the hook and the \<open>finished\<close> signal, if the flag is still set.\<close>

definition finish_up :: "run_env \<Rightarrow> output_frame \<Rightarrow> effect list" where
  "finish_up env frame =
     (if running_at_end env
      then (case plugin_manager env of
              Some hook_results \<Rightarrow> [After_process_file frame]
            | None \<Rightarrow> [])
           @ [Emit Finished]
      else [])"

definition process_file :: "run_env \<Rightarrow> effect list" where
  "process_file env =
     (case selected_file env of
        None \<Rightarrow> [Emit (Error ''No file selected'')]
      | Some name \<Rightarrow>
          if hook_aborts env then [Emit (Error ''Processing aborted by plugin'')]
          else
            (case load_file_data env of
               Inl message \<Rightarrow> [Emit (Error message)]
             | Inr df \<Rightarrow>
                 (case find_model_col (df_columns df) of
                    None \<Rightarrow> [Emit (Error missing_column_message)]
                  | Some model_col \<Rightarrow>
                      let spec_fields = run_spec_fields env;
                          total_rows = length (df_records df)
                      in case makedirs env of
                           Some message \<Rightarrow> [Emit (Error message)]
                         | None \<Rightarrow>
                             Save_results (output_columns spec_fields, [])
                             # (if total_rows = 0
                                then [Emit (Error ''File contains no data rows'')]
                                else
                                  (case process_records env spec_fields (run_prefix env)
                                          model_col total_rows 0 (df_records df) [] of
                                     (effects, out) \<Rightarrow>
                                       Emit (Update_progress 0 total_rows) # effects
                                       @ finish_up env (output_columns spec_fields, out))))))"

text \<open>
  The signals reach the row's handlers in the order of emission. \<open>on_update_progress\<close>
  writes the progress bar and the parent's status only, which are not among the row's
  fields here.
\<close>

definition deliver :: "sheet_row \<Rightarrow> effect \<Rightarrow> sheet_row" where
  "deliver r e =
     (case e of
        Emit (Update_status status_text) \<Rightarrow> on_update_status status_text r
      | Emit Finished \<Rightarrow> on_processing_finished r
      | Emit (Error error_message) \<Rightarrow> on_processing_error error_message r
      | _ \<Rightarrow> r)"

definition row_after :: "effect list \<Rightarrow> sheet_row" where
  "row_after effects = foldl deliver started_row effects"


text \<open>The artifact is what the last \<open>save_results\<close> wrote.\<close>

fun last_saved :: "effect list \<Rightarrow> output_frame option" where
  "last_saved [] = None"
| "last_saved (Save_results frame # effects) =
     (case last_saved effects of None \<Rightarrow> Some frame | Some later \<Rightarrow> Some later)"
| "last_saved (e # effects) = last_saved effects"

text \<open>
  Runs for examples: a file is selected, one plugin is loaded and does not abort, no
  configuration manager, and the catalogue has the product page above for the model
  ABC123 only. The three files: no record; one record with an empty identifier; three
  records, the second with an empty identifier and the third unknown to the catalogue.
\<close>

definition example_run :: "(string \<times> string) list list \<Rightarrow> run_env" where
  "example_run records =
     \<lparr>selected_file = Some ''Globe-605.csv'', prefix_input = ''605'',
      plugin_manager = Some [Hook_other],
      load_file_data = Inr \<lparr>df_columns = [''Mfr Model''], df_records = records\<rparr>,
      config_manager = None, makedirs = None,
      scrape = (\<lambda>model prefix.
                  if model = ''ABC123''
                  then Inr (fst (scrape_katom (\<lambda>m p. product_browser) model prefix))
                  else Inr sentinel_result),
      running_at = (\<lambda>i. True), running_at_end = True\<rparr>"


section \<open>The multi-prefix plugin\<close>

text \<open>
  The plugin calls the row's original \<open>scrape_katom(model_number, prefix)\<close>, which reads
  the network: a fetcher takes the state of the world and returns the new one. What the
  plugin does is recorded in order: each call of the fetcher with its prefix and result,
  and each status text it emits.
\<close>

type_synonym 'w fetcher = "string \<Rightarrow> string \<Rightarrow> 'w \<Rightarrow> scrape_result \<times> 'w"

datatype plugin_event = Fetched string scrape_result | Status string

text \<open>The loop \<open>for alt_prefix in self.prefixes\<close>; \<open>Some\<close> is its early return.\<close>

fun try_alt_prefixes ::
  "'w fetcher \<Rightarrow> string \<Rightarrow> string \<Rightarrow> string list \<Rightarrow> 'w
     \<Rightarrow> scrape_result option \<times> plugin_event list \<times> 'w" where
  "try_alt_prefixes original_scrape_katom model_number prefix [] w = (None, [], w)"
| "try_alt_prefixes original_scrape_katom model_number prefix (alt_prefix # rest) w =
     (if alt_prefix \<noteq> prefix then
        (case original_scrape_katom model_number alt_prefix w of (alt, w1) \<Rightarrow>
           if \<not> title_not_found (title alt) then
             (Some alt,
              [Status (''Trying prefix: '' @ alt_prefix), Fetched alt_prefix alt,
               Status (''Found match with prefix: '' @ alt_prefix)], w1)
           else
             (case try_alt_prefixes original_scrape_katom model_number prefix rest w1 of
                (found, ev, w2) \<Rightarrow>
                  (found,
                   Status (''Trying prefix: '' @ alt_prefix) # Fetched alt_prefix alt # ev,
                   w2)))
      else try_alt_prefixes original_scrape_katom model_number prefix rest w)"

definition enhanced_scrape_katom ::
  "'w fetcher \<Rightarrow> string list \<Rightarrow> string \<Rightarrow> string \<Rightarrow> 'w
     \<Rightarrow> scrape_result \<times> plugin_event list \<times> 'w" where
  "enhanced_scrape_katom original_scrape_katom prefixes model_number prefix w =
     (case original_scrape_katom model_number prefix w of (first, w1) \<Rightarrow>
        if title_not_found (title first) then
          (case try_alt_prefixes original_scrape_katom model_number prefix prefixes w1 of
             (Some alt, ev, w2) \<Rightarrow>
               (alt,
                Fetched prefix first
                  # Status ''Primary prefix failed, trying alternatives...'' # ev, w2)
           | (None, ev, w2) \<Rightarrow>
               (first,
                Fetched prefix first
                  # Status ''Primary prefix failed, trying alternatives...'' # ev, w2))
        else (first, [Fetched prefix first], w1))"

text \<open>The calls of the fetcher among the events: prefix and result, in order.\<close>

fun fetched :: "plugin_event list \<Rightarrow> (string \<times> scrape_result) list" where
  "fetched [] = []"
| "fetched (Fetched p r # ev) = (p, r) # fetched ev"
| "fetched (Status t # ev) = fetched ev"

text \<open>
  The retry strategy in the specification's words: the candidates are the primary prefix
  and then the alternates in configured order without those equal to the primary;
  \<open>fetch_all\<close> fetches a list of prefixes one after the other, \<open>up_to_first_success\<close>
  cuts the attempts after the first whose title is not the sentinel.
\<close>

definition candidates :: "string \<Rightarrow> string list \<Rightarrow> string list" where
  "candidates prefix prefixes = prefix # filter (\<lambda>a. a \<noteq> prefix) prefixes"

fun fetch_all :: "'w fetcher \<Rightarrow> string \<Rightarrow> string list \<Rightarrow> 'w \<Rightarrow> (string \<times> scrape_result) list" where
  "fetch_all f model_number [] w = []"
| "fetch_all f model_number (a # rest) w =
     (case f model_number a w of (r, w1) \<Rightarrow> (a, r) # fetch_all f model_number rest w1)"

fun up_to_first_success :: "(string \<times> scrape_result) list \<Rightarrow> (string \<times> scrape_result) list" where
  "up_to_first_success [] = []"
| "up_to_first_success ((a, r) # rest) =
     (if title_not_found (title r) then (a, r) # up_to_first_success rest else [(a, r)])"

definition succeeded :: "string \<times> scrape_result \<Rightarrow> bool" where
  "succeeded ar = (\<not> title_not_found (title (snd ar)))"

text \<open>A fetcher for examples: the catalogue has no page but under prefix 123, whose
  page is titled "Page Not Found"; and one that has a product under prefix 456.\<close>

definition stub_fetch :: "unit fetcher" where
  "stub_fetch model_number prefix w =
     (if prefix = ''123'' then
        (sentinel_result\<lparr>title := ''Page Not Found'', description := ''<p>Gone</p>''\<rparr>, w)
      else if prefix = ''456'' then
        (sentinel_result\<lparr>title := ''Griddle X'', description := ''<p>A griddle</p>''\<rparr>, w)
      else (sentinel_result, w))"

section \<open>Properties\<close>

lemma starts_with_iff: "starts_with sub s \<longleftrightarrow> (\<exists>t. s = sub @ t)"
  by (induction sub s rule: starts_with.induct) auto

lemma py_in_iff: "py_in sub s \<longleftrightarrow> (\<exists>p t. s = p @ sub @ t)"
proof (induction s)
  case Nil
  then show ?case by auto
next
  case (Cons c s)
  show ?case
  proof
    assume "py_in sub (c # s)"
    then consider "starts_with sub (c # s)" | "py_in sub s" by auto
    then show "\<exists>p t. c # s = p @ sub @ t"
    proof cases
      case 1
      then obtain t where "c # s = sub @ t" by (auto simp: starts_with_iff)
      then have "c # s = [] @ sub @ t" by simp
      then show ?thesis by blast
    next
      case 2
      then obtain p t where "s = p @ sub @ t" using Cons.IH by blast
      then have "c # s = (c # p) @ sub @ t" by simp
      then show ?thesis by blast
    qed
  next
    assume "\<exists>p t. c # s = p @ sub @ t"
    then obtain p t where pt: "c # s = p @ sub @ t" by blast
    show "py_in sub (c # s)"
    proof (cases p)
      case Nil
      with pt have "starts_with sub (c # s)" by (auto simp: starts_with_iff)
      then show ?thesis by simp
    next
      case (Cons a p')
      with pt have "s = p' @ sub @ t" by simp
      then have "py_in sub s" using Cons.IH by blast
      then show ?thesis by simp
    qed
  qed
qed

subsection \<open>C9: the status text of a failed row\<close>

text \<open>
  C9, as the code has it: for every error message delivered to \<open>on_processing_error\<close>,
  the row's status text is \<open>Error: \<close> followed by the first 40 characters of the message
  (the whole message when it has at most 40) and three dots, and the whole message goes
  into a warning box titled \<open>Processing Error\<close>.
\<close>

theorem C9_status_shows_first_40:
  "status_label (on_processing_error msg r) = ''Error: '' @ take 40 msg @ ''...''
   \<and> py_in (take 40 msg) (status_label (on_processing_error msg r))
   \<and> message_boxes (on_processing_error msg r)
       = message_boxes r @ [(''Processing Error'', msg)]"
proof -
  have "status_label (on_processing_error msg r) = ''Error: '' @ take 40 msg @ ''...''"
    by (simp add: on_processing_error_def)
  moreover from this have "py_in (take 40 msg) (status_label (on_processing_error msg r))"
    unfolding py_in_iff by blast
  moreover have "message_boxes (on_processing_error msg r)
      = message_boxes r @ [(''Processing Error'', msg)]"
    by (simp add: on_processing_error_def)
  ultimately show ?thesis by blast
qed

text \<open>
  C9 as stated fails: a message of 60 characters has its last 40 starting at the 21st,
  and the status text shows the first 40 only.
\<close>

theorem C9_last_40_counterexample:
  "\<not> py_in (last_chars 40 ''Failed to load Google Sheet: quota exceeded for this project'')
        (status_label (on_processing_error
           ''Failed to load Google Sheet: quota exceeded for this project'' started_row))"
  by (simp add: on_processing_error_def last_chars_def started_row_def)

subsection \<open>C2: the prefix retry of the multi-prefix plugin\<close>

lemma try_alt_prefixes_spec:
  "try_alt_prefixes f m p alts w = (found, ev, w') \<Longrightarrow>
     fetched ev = up_to_first_success (fetch_all f m (filter (\<lambda>a. a \<noteq> p) alts) w)
     \<and> found = map_option snd (find succeeded (fetch_all f m (filter (\<lambda>a. a \<noteq> p) alts) w))"
  by (induction alts arbitrary: w found ev w')
    (auto simp: succeeded_def split: prod.splits if_splits)

lemma candidates_skip_primary:
  "b \<noteq> p \<Longrightarrow> c \<noteq> p \<Longrightarrow> candidates p [p, b, c] = [p, b, c]"
  by (simp add: candidates_def)

text \<open>
  C2, as the code has it: the fetcher is called with the primary prefix first; when that
  title is the "not found" sentinel, with each alternate in configured order, those
  equal to the primary prefix skipped, up to and including the first attempt whose title
  is not the sentinel, and that attempt's result is returned. When every attempt fails,
  the result of the primary attempt is returned (the first result, not the last).
  For alternates \<open>[A, B, C]\<close> with \<open>A\<close> the primary, the candidates after the primary are
  \<open>[B, C]\<close> (lemma \<open>candidates_skip_primary\<close>).
\<close>

theorem C2_prefix_retry:
  "fetched (fst (snd (enhanced_scrape_katom f prefixes m p w)))
     = up_to_first_success (fetch_all f m (candidates p prefixes) w)
   \<and> fst (enhanced_scrape_katom f prefixes m p w)
     = (case find succeeded (fetch_all f m (candidates p prefixes) w) of
          Some (a, r) \<Rightarrow> r
        | None \<Rightarrow> fst (f m p w))"
proof -
  obtain r1 w1 where first: "f m p w = (r1, w1)" by force
  obtain found ev w2 where alts: "try_alt_prefixes f m p prefixes w1 = (found, ev, w2)"
    by (metis prod_cases3)
  note spec = try_alt_prefixes_spec [OF alts]
  show ?thesis
  proof (cases "title_not_found (title r1)")
    case False
    then show ?thesis
      by (simp add: enhanced_scrape_katom_def candidates_def first succeeded_def)
  next
    case True
    then show ?thesis
      using spec
      by (cases found)
        (auto simp: enhanced_scrape_katom_def candidates_def first alts succeeded_def
          split: option.splits)
  qed
qed

text \<open>
  C2 as stated fails in its last clause: with primary prefix 605 and alternates 605 and
  123, where no page exists under 605 and the page under 123 is titled "Page Not Found",
  both attempts fail and the result returned is the first attempt's, not the last's.
\<close>

theorem C2_returns_last_counterexample:
  "list_all (\<lambda>ar. title_not_found (title (snd ar)))
     (fetched (fst (snd (enhanced_scrape_katom stub_fetch [''605'', ''123''] ''ABC123'' ''605'' ()))))
   \<and> fst (enhanced_scrape_katom stub_fetch [''605'', ''123''] ''ABC123'' ''605'' ())
     \<noteq> snd (last (fetched (fst (snd
          (enhanced_scrape_katom stub_fetch [''605'', ''123''] ''ABC123'' ''605'' ())))))"
  by code_simp

subsection \<open>Binary64 rounding keeps the ceiling of short decimal numerals\<close>

lemma bit_length_bounds: "0 < n \<Longrightarrow> 2 ^ (bit_length n - 1) \<le> n \<and> n < 2 ^ bit_length n"
proof (induction n rule: bit_length.induct)
  case (1 n)
  show ?case
  proof (cases "n div 2 = 0")
    case True
    with 1 have "n = 1" by (cases n) auto
    moreover have "bit_length (Suc 0) = Suc 0"
      by (simp add: bit_length.simps [of "Suc 0"] bit_length.simps [of 0])
    ultimately show ?thesis by simp
  next
    case False
    then have pos: "0 < n div 2" by simp
    from 1 have n0: "n \<noteq> 0" by simp
    from "1.IH" [OF n0 pos] have
      lo: "2 ^ (bit_length (n div 2) - 1) \<le> n div 2" and hi: "n div 2 < 2 ^ bit_length (n div 2)"
      by auto
    have bl: "bit_length n = Suc (bit_length (n div 2))"
      using n0 by (subst bit_length.simps) simp
    have blpos: "0 < bit_length (n div 2)" using pos by (subst bit_length.simps) simp
    then obtain j where j: "bit_length (n div 2) = Suc j" by (cases "bit_length (n div 2)") auto
    have "2 ^ (bit_length n - 1) = 2 * 2 ^ j" using bl j by simp
    also have "\<dots> \<le> 2 * (n div 2)" using lo j by simp
    also have "\<dots> \<le> n" by simp
    finally have A: "2 ^ (bit_length n - 1) \<le> n" .
    have "n < 2 * (n div 2) + 2" by arith
    also have "\<dots> \<le> 2 * 2 ^ bit_length (n div 2)" using hi by simp
    also have "\<dots> = 2 ^ bit_length n" using bl by simp
    finally show ?thesis using A by simp
  qed
qed

lemma round_half_even_bounds:
  "0 < den \<Longrightarrow> num div den \<le> round_half_even num den \<and> round_half_even num den \<le> num div den + 1"
  by (simp add: round_half_even_def Let_def)

lemma round_half_even_up:
  "den < 2 * (num mod den) \<Longrightarrow> round_half_even num den = num div den + 1"
  by (simp add: round_half_even_def Let_def)

lemma round_half_even_exact:
  "0 < den \<Longrightarrow> num mod den = 0 \<Longrightarrow> round_half_even num den = num div den"
  by (simp add: round_half_even_def Let_def)


lemma ceil_round_core:
  assumes D: "0 < D" and cond: "N mod D = 0 \<or> D < 2 * ((N mod D) * 2 ^ t)"
  shows "(round_half_even (N * 2 ^ t) D + 2 ^ t - 1) div 2 ^ t = (N + D - 1) div D"
proof -
  define I where "I = N div D"
  define r where "r = N mod D"
  define T :: nat where "T = 2 ^ t"
  have T: "0 < T" by (simp add: T_def)
  have N: "N = I * D + r" by (simp add: I_def r_def)
  have rD: "r < D" using D by (simp add: r_def)
  have NT: "N * T = r * T + (I * T) * D" by (simp add: N algebra_simps)
  have kdiv: "(N * T) div D = I * T + (r * T) div D"
    unfolding NT using D by simp
  have kmod: "(N * T) mod D = (r * T) mod D"
    unfolding NT by simp
  show ?thesis
  proof (cases "r = 0")
    case True
    have m: "round_half_even (N * T) D = I * T"
      using round_half_even_exact [OF D, of "N * T"] kdiv kmod True by simp
    have L: "(I * T + T - 1) div T = I"
      by (rule div_nat_eqI) (use T in \<open>auto simp: algebra_simps\<close>)
    have R: "(N + D - 1) div D = I"
      by (rule div_nat_eqI) (use D True N in \<open>auto simp: algebra_simps\<close>)
    show ?thesis using m L R by (simp add: T_def)
  next
    case False
    then have rpos: "0 < r" by simp
    with cond have up: "D < 2 * (r * T)" by (simp add: r_def T_def)
    have R: "(N + D - 1) div D = I + 1"
      by (rule div_nat_eqI) (use D rpos rD N in \<open>auto simp: algebra_simps\<close>)
    define m where "m = round_half_even (N * T) D"
    have "r * T < D * T" using rD T by simp
    then have k'lt: "(r * T) div D < T"
      using D by (simp add: less_mult_imp_div_less mult.commute)
    have mb: "(N * T) div D \<le> m \<and> m \<le> (N * T) div D + 1"
      unfolding m_def by (rule round_half_even_bounds [OF D])
    have lo: "I * T + 1 \<le> m"
    proof (cases "(r * T) div D = 0")
      case True
      then have "r * T < D" using D by (simp add: div_eq_0_iff)
      then have "(r * T) mod D = r * T" by simp
      then have "D < 2 * ((N * T) mod D)" using up kmod by simp
      then have "m = (N * T) div D + 1" unfolding m_def by (rule round_half_even_up)
      then show ?thesis using kdiv by simp
    next
      case False
      then show ?thesis using mb kdiv by simp
    qed
    have hi: "m \<le> I * T + T" using mb kdiv k'lt by simp
    have L: "(m + T - 1) div T = I + 1"
      by (rule div_nat_eqI) (use lo hi T in \<open>auto simp: algebra_simps\<close>)
    show ?thesis using L R by (simp add: m_def T_def)
  qed
qed


lemma bit_length_pos: "0 < n \<Longrightarrow> 0 < bit_length n"
  by (subst bit_length.simps) simp

lemma bit_length_le: "0 < n \<Longrightarrow> n < 2 ^ k \<Longrightarrow> bit_length n \<le> k"
proof -
  assume n: "0 < n" and lt: "n < 2 ^ k"
  have "(2::nat) ^ (bit_length n - 1) \<le> n"
    using bit_length_bounds [OF n] by blast
  then have "(2::nat) ^ (bit_length n - 1) < 2 ^ k"
    using lt by (rule le_less_trans)
  then have "bit_length n - 1 < k" by simp
  then show ?thesis by simp
qed

lemma float_exponent_le:
  assumes "0 < N" "N < 2 ^ 53" "0 < D"
  shows "float_exponent N D \<le> 52"
proof -
  have "bit_length N \<le> 53" using assms by (simp add: bit_length_le)
  moreover have "0 < bit_length D" using assms by (simp add: bit_length_pos)
  ultimately show ?thesis by (simp add: float_exponent_def Let_def)
qed

lemma float_exponent_lower:
  assumes N: "0 < N" and D: "0 < D"
  shows "pow2_le (float_exponent N D) N D"
proof (cases "pow2_le (int (bit_length N) - int (bit_length D)) N D")
  case True
  then show ?thesis by (simp add: float_exponent_def Let_def)
next
  case False
  define bn where "bn = bit_length N"
  define bd where "bd = bit_length D"
  have e: "float_exponent N D = int bn - int bd - 1"
    using False by (simp add: float_exponent_def Let_def bn_def bd_def)
  have Nlo: "2 ^ (bn - 1) \<le> N" using bit_length_bounds [OF N] by (simp add: bn_def)
  have Dhi: "D < 2 ^ bd" using bit_length_bounds [OF D] by (simp add: bd_def)
  have bnpos: "0 < bn" using N by (simp add: bn_def bit_length_pos)
  show ?thesis
  proof (cases "0 \<le> int bn - int bd - 1")
    case True
    then have le: "bd \<le> bn - 1" by simp
    have nat_e: "nat (int bn - int bd - 1) = bn - 1 - bd" using True by simp
    have "D * 2 ^ (bn - 1 - bd) \<le> 2 ^ bd * 2 ^ (bn - 1 - bd)"
      using Dhi by simp
    also have "\<dots> = 2 ^ (bn - 1)" using le by (simp add: power_add [symmetric])
    finally have "D * 2 ^ (bn - 1 - bd) \<le> N" using Nlo by simp
    then show ?thesis using True by (simp add: pow2_le_def e nat_e)
  next
    case False
    then have lt: "bn - 1 < bd" using bnpos by linarith
    define k where "k = bd - (bn - 1)"
    have kpos: "0 < k" using lt by (simp add: k_def)
    have e': "float_exponent N D = - int k" using e lt bnpos by (simp add: k_def of_nat_diff)
    have "D \<le> 2 ^ bd" using Dhi by simp
    also have "\<dots> = 2 ^ (bn - 1) * 2 ^ (bd - (bn - 1))"
      using lt by (simp add: power_add [symmetric])
    also have "\<dots> \<le> N * 2 ^ (bd - (bn - 1))" using Nlo by simp
    finally have "D \<le> N * 2 ^ k" by (simp add: k_def)
    then show ?thesis using kpos by (simp add: pow2_le_def e')
  qed
qed

lemma exponent_scale:
  assumes N: "0 < N" "N < 2 ^ 53" and D: "0 < D" "D < 2 ^ 1075" and r: "0 < N mod D"
  shows "D < 2 * ((N mod D) * 2 ^ nat (- max (float_exponent N D - 52) (- 1074)))"
proof -
  define e where "e = float_exponent N D"
  define r where "r = N mod D"
  have rpos: "1 \<le> r" using assms by (simp add: r_def)
  have ele: "e \<le> 52" unfolding e_def using N D(1) by (rule float_exponent_le)
  have lower: "pow2_le e N D" unfolding e_def using N(1) D(1) by (rule float_exponent_lower)
  have mono: "\<And>t. D < 2 * 2 ^ t \<Longrightarrow> D < 2 * (r * 2 ^ t)"
  proof -
    fix t :: nat
    assume "D < 2 * 2 ^ t"
    also have "2 * 2 ^ t \<le> 2 * (r * 2 ^ t)" using rpos by simp
    finally show "D < 2 * (r * 2 ^ t)" .
  qed
  show ?thesis
  proof (cases "e - 52 \<le> - 1074")
    case True
    then have t: "nat (- max (e - 52) (- 1074)) = 1074" by simp
    have "(2::nat) ^ 1075 = 2 * 2 ^ 1074" by (simp only: power_Suc [symmetric]) simp
    with D have "D < 2 * 2 ^ 1074" by (simp only:)
    then have "D < 2 * (r * 2 ^ 1074)" by (rule mono)
    then show ?thesis unfolding e_def [symmetric] r_def [symmetric] t .
  next
    case False
    then have q: "max (e - 52) (- 1074) = e - 52" by simp
    have "D < 2 * 2 ^ nat (52 - e)"
    proof (cases "0 \<le> e")
      case True
      then obtain ne where ne: "e = int ne" using nonneg_int_cases by blast
      with ele have ne52: "ne \<le> 52" by simp
      from lower ne have "D * 2 ^ ne \<le> N" by (simp add: pow2_le_def)
      also have "N < 2 ^ 53" by fact
      also have "(2::nat) ^ 53 = (2 * 2 ^ (52 - ne)) * 2 ^ ne"
        using ne52 by (simp add: power_add [symmetric])
      finally have "D < 2 * 2 ^ (52 - ne)" by simp
      moreover have "nat (52 - e) = 52 - ne" using ne by simp
      ultimately show ?thesis by simp
    next
      case False
      then obtain k where k: "e = - int k" by (metis int_cases2 nat_le_iff neg_le_0_iff_le of_nat_0_le_iff le_cases)
      from lower False k have "D \<le> N * 2 ^ k" by (simp add: pow2_le_def)
      also have "\<dots> < 2 ^ 53 * 2 ^ k" using N by simp
      also have "\<dots> = 2 * 2 ^ (52 + k)" by (simp add: power_add)
      finally have "D < 2 * 2 ^ (52 + k)" .
      moreover have "nat (52 - e) = 52 + k" using k by simp
      ultimately show ?thesis by simp
    qed
    then have "D < 2 * (r * 2 ^ nat (52 - e))" by (rule mono)
    moreover have "nat (- max (e - 52) (- 1074)) = nat (52 - e)" using q by simp
    ultimately show ?thesis by (simp add: e_def r_def)
  qed
qed


lemma round_half_even_le: "0 < den \<Longrightarrow> round_half_even num den \<le> num + 1"
proof -
  assume d: "0 < den"
  have "round_half_even num den \<le> num div den + 1"
    using round_half_even_bounds [OF d] by blast
  also have "num div den \<le> num" by simp
  finally show ?thesis by simp
qed

lemma math_ceil_float_exact:
  assumes N: "N < 2 ^ 53" and D: "0 < D" "D < 2 ^ 1075"
  shows "math_ceil (float_of_ratio N D) = Inr (int ((N + D - 1) div D))"
proof (cases "N = 0")
  case True
  then show ?thesis using D by (simp add: float_of_ratio_def math_ceil_def)
next
  case False
  then have Npos: "0 < N" by simp
  define q where "q = max (float_exponent N D - 52) (- 1074)"
  define t where "t = nat (- q)"
  have qle: "q \<le> 0"
    using float_exponent_le [OF Npos N D(1)] by (simp add: q_def)
  have cond: "N mod D = 0 \<or> D < 2 * ((N mod D) * 2 ^ t)"
  proof (cases "N mod D = 0")
    case True
    then show ?thesis by simp
  next
    case False
    then have "0 < N mod D" by simp
    from exponent_scale [OF Npos N D this]
    have "D < 2 * ((N mod D) * 2 ^ t)" unfolding t_def q_def .
    then show ?thesis by blast
  qed
  from ceil_round_core [OF D(1) cond]
  have core: "(round_half_even (N * 2 ^ t) D + 2 ^ t - 1) div 2 ^ t = (N + D - 1) div D" .
  show ?thesis
  proof (cases "q = 0")
    case True
    then have t0: "t = 0" by (simp add: t_def)
    have m: "round_half_even N D = (N + D - 1) div D" using core t0 by simp
    have "round_half_even N D \<le> N + 1" using D(1) by (rule round_half_even_le)
    also have "N + 1 < 2 ^ 1024" using N by simp
    finally have fin: "\<not> 2 ^ 1024 \<le> round_half_even N D" by simp
    have "float_of_ratio N D = Finite (round_half_even N D) 0"
      using False True fin unfolding float_of_ratio_def q_def [symmetric] Let_def by simp
    then show ?thesis by (simp add: math_ceil_def m)
  next
    case False
    with qle have neg: "q < 0" by simp
    have "float_of_ratio N D = Finite (round_half_even (N * 2 ^ t) D) q"
      using \<open>N \<noteq> 0\<close> neg unfolding float_of_ratio_def q_def [symmetric] Let_def t_def by simp
    then show ?thesis using neg core by (simp add: math_ceil_def t_def)
  qed
qed

lemma ceiling_div_nat:
  assumes "0 < D"
  shows "\<lceil>real N / real D\<rceil> = int ((N + D - 1) div D)"
proof (rule ceiling_unique)
  define c where "c = (N + D - 1) div D"
  have up: "N \<le> c * D"
  proof -
    have "N + D - 1 < (c + 1) * D"
      unfolding c_def using assms
      by (metis add.commute dividend_less_times_div mult.commute mult_Suc Suc_eq_plus1)
    then show ?thesis by simp
  qed
  have lo: "c * D < N + D"
  proof -
    have "c * D \<le> N + D - 1" unfolding c_def by simp
    then show ?thesis using assms by simp
  qed
  show "real N / real D \<le> of_int (int c)"
  proof -
    have "real N \<le> real (c * D)" using up by (simp only: of_nat_le_iff)
    then show ?thesis using assms by (simp add: field_simps)
  qed
  show "of_int (int c) - 1 < real N / real D"
  proof -
    have "real (c * D) < real (N + D)" using lo by (simp only: of_nat_less_iff)
    then show ?thesis using assms by (simp add: field_simps)
  qed
qed


lemma point_not_digit: "\<not> py_isdigit CHR ''.''"
  by (simp add: py_isdigit_def)

lemma number_match_no_digit:
  "(\<forall>c \<in> set s. \<not> py_isdigit c) \<Longrightarrow> number_match s = None"
  by (simp add: number_match_def)

lemma takeWhile_digit_stop:
  "xs = [] \<or> \<not> py_isdigit (hd xs) \<Longrightarrow> takeWhile py_isdigit xs = []"
  by (cases xs) auto

lemma number_match_token:
  assumes "first_numeric_token s ip fp"
  shows "number_match s = Some (ip, fp)"
proof -
  from assms obtain pre rest where
    s: "s = pre @ ip @ (if fp = [] then [] else CHR ''.'' # fp) @ rest"
    and pre: "\<forall>c \<in> set pre. \<not> py_isdigit c"
    and ip: "ip \<noteq> []" "\<forall>c \<in> set ip. py_isdigit c"
    and fp: "\<forall>c \<in> set fp. py_isdigit c"
    and rest: "rest = [] \<or> \<not> py_isdigit (hd rest)"
    and nofrac: "fp = [] \<longrightarrow> \<not> (\<exists>d r. rest = CHR ''.'' # d # r \<and> py_isdigit d)"
    unfolding first_numeric_token_def by blast
  define tail where "tail = (if fp = [] then [] else CHR ''.'' # fp) @ rest"
  obtain d ip' where ipc: "ip = d # ip'" using ip(1) by (cases ip) auto
  then have d: "py_isdigit d" using ip(2) by simp
  have from_digit: "dropWhile (\<lambda>c. \<not> py_isdigit c) s = ip @ tail"
    using pre d by (simp add: s tail_def dropWhile_append2 ipc)
  have tail_stop: "tail = [] \<or> \<not> py_isdigit (hd tail)"
    using rest by (auto simp: tail_def point_not_digit)
  have tk: "takeWhile py_isdigit (ip @ tail) = ip"
    using ip(2) takeWhile_digit_stop [OF tail_stop] by (simp add: takeWhile_append2)
  have dk: "dropWhile py_isdigit (ip @ tail) = tail"
    using ip(2) tail_stop by (cases tail) (auto simp: dropWhile_append2)
  have nonempty: "ip @ tail \<noteq> []" using ip(1) by simp
  have nm: "number_match s =
      (case tail of [] \<Rightarrow> Some (ip, [])
       | c # after_point \<Rightarrow>
           if c = CHR ''.'' then Some (ip, takeWhile py_isdigit after_point) else Some (ip, []))"
    using nonempty by (simp add: number_match_def from_digit tk dk Let_def)
  show ?thesis
  proof (cases "fp = []")
    case False
    have "takeWhile py_isdigit (fp @ rest) = fp"
      using fp takeWhile_digit_stop [OF rest] by (simp add: takeWhile_append2)
    then show ?thesis using False by (simp add: nm tail_def)
  next
    case True
    show ?thesis
    proof (cases rest)
      case Nil
      then show ?thesis using True by (simp add: nm tail_def)
    next
      case (Cons c r)
      show ?thesis
      proof (cases "c = CHR ''.''")
        case False
        then show ?thesis using True Cons by (simp add: nm tail_def)
      next
        case pt: True
        have "r = [] \<or> \<not> py_isdigit (hd r)"
          using nofrac True Cons pt by (cases r) auto
        then have "takeWhile py_isdigit r = []" by (rule takeWhile_digit_stop)
        then show ?thesis using True Cons pt by (simp add: nm tail_def)
      qed
    qed
  qed
qed

lemma units_of_trailing_unit:
  assumes "trailing_unit s run"
  shows "(case units_match s of Some r \<Rightarrow> py_strip r | None \<Rightarrow> []) = py_strip run"
proof -
  from assms obtain body where s: "s = body @ run"
    and run: "\<forall>c \<in> set run. \<not> py_isdigit c \<and> c \<noteq> CHR ''.''"
    and body: "body = [] \<or> py_isdigit (last body) \<or> last body = CHR ''.''"
    unfolding trailing_unit_def by blast
  let ?P = "\<lambda>c. \<not> py_isdigit c \<and> c \<noteq> CHR ''.''"
  have stop: "takeWhile ?P (rev body) = []"
    using body by (cases body rule: rev_cases) auto
  have "takeWhile ?P (rev run @ rev body) = rev run @ takeWhile ?P (rev body)"
    by (rule takeWhile_append2) (use run in auto)
  then have "takeWhile ?P (rev s) = rev run"
    using stop by (simp add: s)
  then have "rev (takeWhile ?P (rev s)) = run" by simp
  then show ?thesis by (simp add: units_match_def Let_def py_strip_def)
qed

lemma pow10_bound: "d \<le> 300 \<Longrightarrow> (10::nat) ^ d < 2 ^ 1075"
proof -
  assume "d \<le> 300"
  then have "(10::nat) ^ d \<le> 10 ^ 300" by (rule power_increasing) simp
  also have "(10::nat) ^ 300 < 2 ^ 1075" by simp
  finally show ?thesis .
qed

lemma math_ceil_token:
  assumes "nat_of_digits (ip @ fp) < 2 ^ 53" "length fp \<le> 300"
  shows "math_ceil (py_float_of_token ip fp) = Inr \<lceil>token_value ip fp\<rceil>"
proof -
  have D: "(0::nat) < 10 ^ length fp" by simp
  have "math_ceil (py_float_of_token ip fp)
      = Inr (int ((nat_of_digits (ip @ fp) + 10 ^ length fp - 1) div 10 ^ length fp))"
    unfolding py_float_of_token_def
    using assms(1) D pow10_bound [OF assms(2)] by (rule math_ceil_float_exact)
  also have "int ((nat_of_digits (ip @ fp) + 10 ^ length fp - 1) div 10 ^ length fp)
      = \<lceil>real (nat_of_digits (ip @ fp)) / real (10 ^ length fp)\<rceil>"
    using ceiling_div_nat [OF D] by simp
  finally show ?thesis by (simp add: token_value_def)
qed

lemma weight_of_token:
  assumes "first_numeric_token s ip fp" "trailing_unit s run"
    "nat_of_digits (ip @ fp) < 2 ^ 53" "length fp \<le> 300"
  shows "process_weight_value s = with_unit (\<lceil>token_value ip fp\<rceil> + 5) (py_strip run)"
  using number_match_token [OF assms(1)] units_of_trailing_unit [OF assms(2)]
    math_ceil_token [OF assms(3,4)]
  by (simp add: process_weight_value_def weight_try_def with_unit_def Let_def)

lemma first_numeric_tokenI:
  assumes "s = pre @ ip @ (if fp = [] then [] else CHR ''.'' # fp) @ rest"
    "list_all (\<lambda>c. \<not> py_isdigit c) pre" "ip \<noteq> []" "list_all py_isdigit ip"
    "list_all py_isdigit fp" "rest = [] \<or> \<not> py_isdigit (hd rest)"
    "fp \<noteq> [] \<or> (\<forall>d r. rest = CHR ''.'' # d # r \<longrightarrow> \<not> py_isdigit d)"
  shows "first_numeric_token s ip fp"
  unfolding first_numeric_token_def
  using assms by (intro exI [of _ pre] exI [of _ rest]) (auto simp: list_all_iff)

lemma trailing_unitI:
  assumes "s = body @ run" "list_all (\<lambda>c. \<not> py_isdigit c \<and> c \<noteq> CHR ''.'') run"
    "body = [] \<or> py_isdigit (last body) \<or> last body = CHR ''.''"
  shows "trailing_unit s run"
  unfolding trailing_unit_def
  using assms by (intro exI [of _ body]) (auto simp: list_all_iff)

subsection \<open>C1: the weight normaliser\<close>

text \<open>
  C1, as the code has it. For every weight string with no digit, \<open>process_weight_value\<close>
  returns the string unchanged. For every weight string whose first numeric token \<open>n\<close>
  has digits that, read without the point, are below \<open>2 ^ 53\<close> (any token of at most 15
  digits) and at most 300 fraction digits, it returns \<open>str(ceil(n) + 5)\<close> followed, when
  the trimmed trailing non-numeric piece is not empty, by one space and that piece.
  It never raises: an exception in the \<open>try\<close> block returns the input.
\<close>

theorem C1_weight_normalizer:
  "((\<forall>c \<in> set s. \<not> py_isdigit c) \<longrightarrow> process_weight_value s = s)
   \<and> (first_numeric_token s ip fp \<and> trailing_unit s run
        \<and> nat_of_digits (ip @ fp) < 2 ^ 53 \<and> length fp \<le> 300
      \<longrightarrow> process_weight_value s = with_unit (\<lceil>token_value ip fp\<rceil> + 5) (py_strip run))
   \<and> (\<forall>e. weight_try s = Inl e \<longrightarrow> process_weight_value s = s)"
proof (intro conjI impI allI)
  assume "\<forall>c \<in> set s. \<not> py_isdigit c"
  then have "number_match s = None" by (rule number_match_no_digit)
  then show "process_weight_value s = s"
    by (simp add: process_weight_value_def weight_try_def)
next
  assume "first_numeric_token s ip fp \<and> trailing_unit s run
        \<and> nat_of_digits (ip @ fp) < 2 ^ 53 \<and> length fp \<le> 300"
  then show "process_weight_value s = with_unit (\<lceil>token_value ip fp\<rceil> + 5) (py_strip run)"
    using weight_of_token by blast
next
  fix e
  assume "weight_try s = Inl e"
  then show "process_weight_value s = s" by (simp add: process_weight_value_def)
qed

theorem C1_weight_normalizer_witness:
  "\<not> list_ex py_isdigit ''lbs'' \<and> process_weight_value ''lbs'' = ''lbs''
   \<and> first_numeric_token ''22.93 lbs'' ''22'' ''93'' \<and> trailing_unit ''22.93 lbs'' '' lbs''
   \<and> nat_of_digits (''22'' @ ''93'') < 2 ^ 53 \<and> length ''93'' \<le> 300
   \<and> process_weight_value ''22.93 lbs'' = ''28 lbs''"
proof -
  have nodigit: "\<forall>c \<in> set ''lbs''. \<not> py_isdigit c" by (simp add: py_isdigit_def)
  have tok: "first_numeric_token ''22.93 lbs'' ''22'' ''93''"
    by (rule first_numeric_tokenI [where pre = "[]" and rest = "'' lbs''"])
      (simp_all add: py_isdigit_def)
  have unit: "trailing_unit ''22.93 lbs'' '' lbs''"
    by (rule trailing_unitI [where body = "''22.93''"]) (simp_all add: py_isdigit_def)
  have small: "nat_of_digits (''22'' @ ''93'') < 2 ^ 53"
    by (simp add: nat_of_digits_def digit_value_def)
  have len: "length ''93'' \<le> 300" by simp
  have c: "\<lceil>token_value ''22'' ''93''\<rceil> = 23"
    by (simp add: token_value_def nat_of_digits_def digit_value_def)
  have out: "with_unit 28 (py_strip '' lbs'') = ''28 lbs''"
    by (simp add: with_unit_def py_str_def str_nat.simps digit_char_def py_strip_def
        py_isspace_def)
  from C1_weight_normalizer [of "''lbs''"] nodigit
  have a: "process_weight_value ''lbs'' = ''lbs''" by blast
  from C1_weight_normalizer [of "''22.93 lbs''" "''22''" "''93''" "'' lbs''"] tok unit small len
  have "process_weight_value ''22.93 lbs''
      = with_unit (\<lceil>token_value ''22'' ''93''\<rceil> + 5) (py_strip '' lbs'')" by blast
  then have b: "process_weight_value ''22.93 lbs'' = ''28 lbs''" using c out by simp
  have "\<not> list_ex py_isdigit ''lbs''" using nodigit by (simp add: list_ex_iff)
  then show ?thesis using a b tok unit small len by blast
qed

text \<open>
  C1 as stated fails on a long token: in \<open>1.00000000000000001 lbs\<close> the token is more
  than 1, so \<open>str(ceil(n) + 5)\<close> with the unit is \<open>7 lbs\<close>; \<open>float\<close> rounds the token to
  \<open>1.0\<close> and the code returns \<open>6 lbs\<close>.
\<close>

theorem C1_long_token_counterexample:
  "first_numeric_token ''1.00000000000000001 lbs'' ''1'' ''00000000000000001''
   \<and> trailing_unit ''1.00000000000000001 lbs'' '' lbs''
   \<and> with_unit (\<lceil>token_value ''1'' ''00000000000000001''\<rceil> + 5) (py_strip '' lbs'') = ''7 lbs''
   \<and> process_weight_value ''1.00000000000000001 lbs'' = ''6 lbs''"
proof -
  have tok: "first_numeric_token ''1.00000000000000001 lbs'' ''1'' ''00000000000000001''"
    by (rule first_numeric_tokenI [where pre = "[]" and rest = "'' lbs''"])
      (simp_all add: py_isdigit_def)
  have unit: "trailing_unit ''1.00000000000000001 lbs'' '' lbs''"
    by (rule trailing_unitI [where body = "''1.00000000000000001''"])
      (simp_all add: py_isdigit_def)
  have c: "\<lceil>token_value ''1'' ''00000000000000001''\<rceil> = 2"
    by (simp add: token_value_def nat_of_digits_def digit_value_def)
  have strip: "py_strip '' lbs'' = ''lbs''" by (simp add: py_strip_def py_isspace_def)
  have out: "with_unit 7 ''lbs'' = ''7 lbs''"
    by (simp add: with_unit_def py_str_def str_nat.simps digit_char_def)
  have fl: "math_ceil (py_float_of_token ''1'' ''00000000000000001'') = Inr 1"
    by (simp add: py_float_of_token_def nat_of_digits_def digit_value_def float_of_ratio_def
        float_exponent_def pow2_le_def round_half_even_def bit_length.simps Let_def
        math_ceil_def)
  have six: "py_str 6 = ''6''" by (simp add: py_str_def str_nat.simps digit_char_def)
  have code: "process_weight_value ''1.00000000000000001 lbs'' = ''6 lbs''"
    using number_match_token [OF tok] units_of_trailing_unit [OF unit] fl six strip
    by (simp add: process_weight_value_def weight_try_def Let_def)
  show ?thesis using tok unit c out code strip by simp
qed

subsection \<open>C5: the title gates the extraction\<close>

text \<open>
  C5: for every fetch in which the wait for the title element times out (the element is
  absent) or fails, the result is the sentinel in every field: the title is
  \<open>Title not found\<close>, the description is \<open>Description not found\<close>, the specs mapping
  and the specs table markup are empty and no video link is collected, whatever the
  page holds.
\<close>

theorem C5_title_gates_extraction:
  "title_wait (web model_number prefix) = Title_timeout
     \<or> title_wait (web model_number prefix) = Title_error
   \<Longrightarrow> fst (scrape_katom web model_number prefix) = sentinel_result
     \<and> title (fst (scrape_katom web model_number prefix)) = ''Title not found''
     \<and> description (fst (scrape_katom web model_number prefix)) = ''Description not found''
     \<and> specs_data (fst (scrape_katom web model_number prefix)) = []
     \<and> specs_html (fst (scrape_katom web model_number prefix)) = []
     \<and> video_links (fst (scrape_katom web model_number prefix)) = []"
  by (auto simp: scrape_katom_def Let_def sentinel_result_def)

theorem C5_title_gates_extraction_witness:
  "title_wait ((\<lambda>m p. product_browser\<lparr>title_wait := Title_timeout\<rparr>) ''ABC123'' ''605'') = Title_timeout
   \<and> fst (scrape_katom (\<lambda>m p. product_browser\<lparr>title_wait := Title_timeout\<rparr>) ''ABC123'' ''605'')
       = sentinel_result
   \<and> title (fst (scrape_katom (\<lambda>m p. product_browser) ''ABC123'' ''605'')) = ''Fryer X''"
proof -
  have "title_wait ((\<lambda>m p. product_browser\<lparr>title_wait := Title_timeout\<rparr>) ''ABC123'' ''605'') = Title_timeout"
    by simp
  moreover from this
  have "fst (scrape_katom (\<lambda>m p. product_browser\<lparr>title_wait := Title_timeout\<rparr>) ''ABC123'' ''605'')
       = sentinel_result"
    using C5_title_gates_extraction [of "\<lambda>m p. product_browser\<lparr>title_wait := Title_timeout\<rparr>" "''ABC123''" "''605''"]
    by blast
  moreover have "title (fst (scrape_katom (\<lambda>m p. product_browser) ''ABC123'' ''605'')) = ''Fryer X''"
    by (simp add: scrape_katom_def product_browser_def Let_def py_lower_def lower_char_def
        py_strip_def py_isspace_def split: prod.splits)
  ultimately show ?thesis by blast
qed

subsection \<open>C7: the browser session is released\<close>

text \<open>
  C7: on every path of \<open>scrape_katom\<close> (no driver, page load failure, 404 page, no
  title, full extraction) the function returns, and when it returns no session is held:
  if a driver was created, the last call on it is \<open>driver.quit()\<close>. A driver is created
  if and only if \<open>webdriver.Chrome\<close> returns.
\<close>

theorem C7_session_released:
  "\<not> session_held (snd (scrape_katom web model_number prefix))
   \<and> (snd (scrape_katom web model_number prefix) = []
        \<or> last (snd (scrape_katom web model_number prefix)) = Session_quit)
   \<and> (chrome_starts (web model_number prefix)
        = (Session_acquired \<in> set (snd (scrape_katom web model_number prefix))))"
  by (auto simp: scrape_katom_def Let_def split: prod.splits)

subsection \<open>C4: a page without specifications\<close>

text \<open>
  C4 fails on the code for a page that has a table but no row with two cells: no
  strategy yields a pair, the mapping is empty, and the markup returned is an empty
  table, not the empty string. The fallback strategies are not tried on such a page.
\<close>

theorem C4_table_without_pairs:
  "extract_table_data layout_table_document = ([], table_open @ table_close)
   \<and> fallback_specs layout_table_document = ([], [])
   \<and> snd (extract_table_data layout_table_document) \<noteq> []"
  by (simp add: extract_table_data_def layout_table_document_def empty_document_def
      table_row_step_def fallback_specs_def table_open_def table_close_def)

subsection \<open>C6: the video links\<close>

text \<open>
  C6 fails on the code for two distinct URLs of which the second occurs inside the
  first: the second is dropped, though it is no duplicate.
\<close>

theorem C6_substring_drops_distinct_url:
  "clip_plain \<noteq> clip_hd
   \<and> extract_video_links product_browser = clip_hd @ [CHR 0x0A]"
  by (simp add: extract_video_links_def product_browser_def add_link_def clip_hd_def clip_plain_def)

subsection \<open>Runs of the row processor\<close>





lemma find_model_col_example: "find_model_col [''Mfr Model''] = Some ''Mfr Model''"
  by code_simp

lemma example_run_reaches_loop:
  "selected_file (example_run records) = Some ''Globe-605.csv''"
  "\<not> hook_aborts (example_run records)"
  "load_file_data (example_run records)
     = Inr \<lparr>df_columns = [''Mfr Model''], df_records = records\<rparr>"
  "makedirs (example_run records) = None"
  "running_at (example_run records) i"
  by (simp_all add: example_run_def hook_aborts_def)

subsection \<open>C3: an input table without records\<close>

text \<open>
  C3, as the code has it: for an input table with the model column and zero records, a
  started run (a file is selected, no plugin aborts, the file loads, the output
  directory can be made) saves the output
  frame with its header and no row, emits the error \<open>File contains no data rows\<close> and
  ends: the artifact holds the header row only, the row's status text is that error and
  the row is not completed.
\<close>

theorem C3_empty_table_is_an_error:
  assumes "selected_file env = Some name" "\<not> hook_aborts env"
    "load_file_data env = Inr df" "find_model_col (df_columns df) = Some model_col"
    "makedirs env = None"
    "df_records df = []"
  shows "process_file env
       = [Save_results (output_columns (run_spec_fields env), []),
          Emit (Error ''File contains no data rows'')]
     \<and> last_saved (process_file env) = Some (output_columns (run_spec_fields env), [])
     \<and> status_label (row_after (process_file env)) = ''Error: File contains no data rows...''
     \<and> \<not> completed (row_after (process_file env))"
proof -
  have p: "process_file env
       = [Save_results (output_columns (run_spec_fields env), []),
          Emit (Error ''File contains no data rows'')]"
    using assms by (simp add: process_file_def Let_def)
  show ?thesis
    unfolding p
    by (simp add: row_after_def deliver_def on_processing_error_def started_row_def)
qed

theorem C3_empty_table_is_an_error_witness:
  "selected_file (example_run []) = Some ''Globe-605.csv''
   \<and> \<not> hook_aborts (example_run [])
   \<and> load_file_data (example_run []) = Inr \<lparr>df_columns = [''Mfr Model''], df_records = []\<rparr>
   \<and> find_model_col [''Mfr Model''] = Some ''Mfr Model''
   \<and> makedirs (example_run []) = None
   \<and> process_file (example_run [])
       = [Save_results (output_columns default_spec_fields, []),
          Emit (Error ''File contains no data rows'')]
   \<and> last_saved (process_file (example_run [])) = Some (output_columns default_spec_fields, [])"
proof -
  have f: "run_spec_fields (example_run []) = default_spec_fields"
    by (simp add: run_spec_fields_def example_run_def)
  from C3_empty_table_is_an_error
    [of "example_run []" "''Globe-605.csv''" "\<lparr>df_columns = [''Mfr Model''], df_records = []\<rparr>"
      "''Mfr Model''"]
  show ?thesis
    using example_run_reaches_loop [of "[]"] find_model_col_example f by simp
qed

text \<open>
  C3 as stated fails: on the empty table the run ends in the error state, not in
  \<open>Completed\<close>; no \<open>finished\<close> signal is emitted.
\<close>

theorem C3_completed_counterexample:
  "df_records \<lparr>df_columns = [''Mfr Model''], df_records = []\<rparr> = []
   \<and> load_file_data (example_run []) = Inr \<lparr>df_columns = [''Mfr Model''], df_records = []\<rparr>
   \<and> status_label (row_after (process_file (example_run [])))
       = ''Error: File contains no data rows...''
   \<and> \<not> completed (row_after (process_file (example_run [])))
   \<and> Emit Finished \<notin> set (process_file (example_run []))"
  by code_simp

subsection \<open>C8: progress notifications\<close>




subsection \<open>The normaliser applied to its own result\<close>












subsection \<open>Weight values on their way to the output row\<close>





























subsection \<open>C10: weight values are normalised twice\<close>




end
